theory Spec2Isabelle
  imports Complex_Main "HOL-Library.Sublist"
begin

section \<open>Data of the scraper\<close>

text \<open>
  The object pushed onto \<open>adDetails\<close> (index.ts, lines 122-129): six string fields.
  The field \<open>structure\<close> of the source is called \<open>structure_line\<close> here.
\<close>

record ad =
  fullLink :: string
  imageUrl :: string
  address :: string
  description :: string
  structure_line :: string
  price :: string

text \<open>
  Every \<open>throw new Error(...)\<close> of index.ts is a constructor; \<open>LibError\<close> is an error
  raised by the runtime (node-fetch, fs/promises) and carries that error's message.
\<close>

datatype error =
    MaxTimeout
  | FetchStatus nat string
  | NetworkRetries
  | FetchFailed
  | BotDetection
  | NoFeedItems
  | CouldNotReadOrCreate string
  | MissingCredentials
  | SendMessageFailed string
  | SendPhotoFailed string
  | LibError string

text \<open>Values that \<open>JSON.parse\<close> can return; \<open>'n\<close> is the type of JavaScript numbers.\<close>

datatype 'n jsval =
    JNull
  | JBool bool
  | JNum 'n
  | JStr string
  | JArr "'n jsval list"
  | JObj "(string \<times> 'n jsval) list"

text \<open>A reply of an HTTP server: the call rejects, or a status, a status text and a body
  (\<open>Inl\<close> when reading the body rejects).\<close>

datatype httpReply =
    Unreachable string
  | Response nat string "string + string"

text \<open>The two request shapes sent to the Telegram API (lines 183-238):
  token, chat id and text, or token, chat id, photo and caption.\<close>

datatype request =
    SendMessage string string string
  | SendPhoto string string string string

text \<open>
  The mutable world of one run: the clock read by \<open>Date.now()\<close> (milliseconds), the
  URLs fetched so far, the delays awaited so far, the files on disk (path to content),
  the paths written so far, and the requests issued to the Telegram API.
\<close>

record world =
  now :: rat
  gets :: "string list"
  sleeps :: "rat list"
  files :: "string \<rightharpoonup> string"
  writes :: "string list"
  sent :: "request list"

text \<open>A DOM tree as cheerio holds it: elements with a tag name, attributes and
  children, and text nodes.\<close>

datatype node =
    Element string "(string \<times> string) list" "node list"
  | Text string

text \<open>
  What the program does not own: the listing site (the \<open>k\<close>-th GET of a URL takes some
  milliseconds and yields a reply), the HTML parser \<open>cheerio.load\<close>, \<open>JSON.parse\<close>
  (\<open>None\<close> is a SyntaxError) and \<open>JSON.stringify\<close>, the file system's faults (a path on
  which every operation rejects, with the error's message), the Telegram endpoint (the
  reply to the \<open>k\<close>-th request), the environment variables and config.json.
\<close>

record 'n env =
  site :: "nat \<Rightarrow> string \<Rightarrow> nat \<times> httpReply"
  cheerio_load :: "string \<Rightarrow> node list"
  JSON_parse :: "string \<Rightarrow> 'n jsval option"
  JSON_stringify :: "'n jsval \<Rightarrow> string"
  ioFault :: "string \<Rightarrow> string option"
  telegram :: "nat \<Rightarrow> request \<Rightarrow> httpReply"
  env_API_TOKEN :: "string option"
  env_CHAT_ID :: "string option"
  config_telegramApiToken :: "string option"
  config_chatId :: "string option"

type_synonym 'a result = "(error + 'a) \<times> world"

section \<open>File system (fs, fs/promises)\<close>

definition existsSync :: "world \<Rightarrow> string \<Rightarrow> bool" where
  "existsSync w path \<longleftrightarrow> files w path \<noteq> None"

definition readFile :: "'n env \<Rightarrow> string \<Rightarrow> world \<Rightarrow> string result" where
  "readFile env path w =
     (case ioFault env path of
        Some msg \<Rightarrow> (Inl (LibError msg), w)
      | None \<Rightarrow>
          (case files w path of
             None \<Rightarrow> (Inl (LibError (''ENOENT: no such file or directory, open '' @ path)), w)
           | Some data \<Rightarrow> (Inr data, w)))"

definition writeFile :: "'n env \<Rightarrow> string \<Rightarrow> string \<Rightarrow> world \<Rightarrow> unit result" where
  "writeFile env path data w =
     (case ioFault env path of
        Some msg \<Rightarrow> (Inl (LibError msg), w)
      | None \<Rightarrow> (Inr (), w\<lparr>files := (files w)(path \<mapsto> data), writes := writes w @ [path]\<rparr>))"

text \<open>\<open>mkdir(path, {recursive: true})\<close>: directories are not part of the model, so a
  successful call changes nothing.\<close>

definition mkdir :: "'n env \<Rightarrow> string \<Rightarrow> world \<Rightarrow> unit result" where
  "mkdir env path w =
     (case ioFault env path of
        Some msg \<Rightarrow> (Inl (LibError msg), w)
      | None \<Rightarrow> (Inr (), w))"

section \<open>The JavaScript Set of saved ads\<close>

text \<open>
  A \<open>Set\<close> is the list of its elements in insertion order, which is what
  \<open>Array.from\<close> returns. Membership is SameValueZero: primitives are compared by
  value, and an array or object parsed from JSON is equal to no other value.
\<close>

fun primitive :: "'n jsval \<Rightarrow> bool" where
  "primitive (JArr xs) = False"
| "primitive (JObj kvs) = False"
| "primitive v = True"

definition setHas :: "'n jsval list \<Rightarrow> 'n jsval \<Rightarrow> bool" where
  "setHas s v \<longleftrightarrow> primitive v \<and> v \<in> set s"

definition setAdd :: "'n jsval list \<Rightarrow> 'n jsval \<Rightarrow> 'n jsval list" where
  "setAdd s v = (if setHas s v then s else s @ [v])"

text \<open>
  A string is the list of the bytes of its UTF-8 encoding. Iterating a string yields its
  code points: each is a byte together with the continuation bytes (\<open>0x80\<close> to \<open>0xBF\<close>)
  that follow it.
\<close>

definition isContinuation :: "char \<Rightarrow> bool" where
  "isContinuation c \<longleftrightarrow> 128 \<le> (of_char c :: nat) \<and> (of_char c :: nat) < 192"

function codePoints :: "string \<Rightarrow> string list" where
  "codePoints [] = []"
| "codePoints (c # cs) =
     (c # takeWhile isContinuation cs) # codePoints (dropWhile isContinuation cs)"
  by pat_completeness auto
termination
  by (relation "measure length") (simp_all add: length_dropWhile_le le_imp_less_Suc)

text \<open>\<open>new Set(v)\<close>: \<open>null\<close> gives the empty set, an array its elements, a string its
  code points, and every other value is not iterable (a TypeError, \<open>None\<close>).\<close>

fun newSet :: "'n jsval \<Rightarrow> 'n jsval list option" where
  "newSet JNull = Some []"
| "newSet (JArr xs) = Some (foldl setAdd [] xs)"
| "newSet (JStr s) = Some (foldl setAdd [] (map JStr (codePoints s)))"
| "newSet v = None"

section \<open>checkForNewItems (lines 137-174)\<close>

text \<open>The \<open>try\<close> block of lines 142-159: the saved set, and the world after the reads
  and writes of the block.\<close>

definition loadSavedAds :: "'n env \<Rightarrow> string \<Rightarrow> world \<Rightarrow> 'n jsval list result" where
  "loadSavedAds env filePath w =
     (if existsSync w filePath then
        (case readFile env filePath w of
           (Inl e, w1) \<Rightarrow> (Inl e, w1)
         | (Inr data, w1) \<Rightarrow>
             (case Option.bind (JSON_parse env data) newSet of
                Some savedAds \<Rightarrow> (Inr savedAds, w1)
              | None \<Rightarrow>
                  (case writeFile env (filePath @ ''.backup'') data w1 of
                     (Inl e, w2) \<Rightarrow> (Inl e, w2)
                   | (Inr u, w2) \<Rightarrow> (Inr [], w2))))
      else
        (case mkdir env ''data'' w of
           (Inl e, w1) \<Rightarrow> (Inl e, w1)
         | (Inr u, w1) \<Rightarrow>
             (case writeFile env filePath ''[]'' w1 of
                (Inl e, w2) \<Rightarrow> (Inl e, w2)
              | (Inr u', w2) \<Rightarrow> (Inr [], w2))))"

definition createPushFlagForWorkflow :: "'n env \<Rightarrow> world \<Rightarrow> unit result" where
  "createPushFlagForWorkflow env w = writeFile env ''push_me'' '''' w"

definition filePathOf :: "string \<Rightarrow> string" where
  "filePathOf topic = ''./data/'' @ topic @ ''.json''"

definition checkForNewItems :: "'n env \<Rightarrow> ad list \<Rightarrow> string \<Rightarrow> world \<Rightarrow> ad list result" where
  "checkForNewItems env ads topic w =
     (let filePath = filePathOf topic in
      case loadSavedAds env filePath w of
        (Inl e, w1) \<Rightarrow> (Inl (CouldNotReadOrCreate filePath), w1)
      | (Inr savedAds, w1) \<Rightarrow>
          (let newItems = filter (\<lambda>ad. \<not> setHas savedAds (JStr (imageUrl ad))) ads in
           if length newItems > 0 then
             (let savedAds' = foldl (\<lambda>s ad. setAdd s (JStr (imageUrl ad))) savedAds newItems in
              case writeFile env filePath (JSON_stringify env (JArr savedAds')) w1 of
                (Inl e, w2) \<Rightarrow> (Inl e, w2)
              | (Inr u, w2) \<Rightarrow>
                  (case createPushFlagForWorkflow env w2 of
                     (Inl e, w3) \<Rightarrow> (Inl e, w3)
                   | (Inr u', w3) \<Rightarrow> (Inr newItems, w3)))
           else (Inr newItems, w1)))"

section \<open>getYad2Response (lines 29-73)\<close>

text \<open>\<open>res.ok\<close> of node-fetch: the status is in the range 200-299.\<close>

definition res_ok :: "nat \<Rightarrow> bool" where
  "res_ok status \<longleftrightarrow> 200 \<le> status \<and> status \<le> 299"

text \<open>Line 42: \<open>Math.pow(2, attempt) * 1000\<close>, for an integer \<open>attempt\<close> of either sign.\<close>

definition backoffDelay :: "int \<Rightarrow> rat" where
  "backoffDelay attempt = 2 powi attempt * 1000"

text \<open>Line 69: the timer fires after the delay asked for.\<close>

definition sleep :: "rat \<Rightarrow> world \<Rightarrow> world" where
  "sleep delay w = w\<lparr>now := now w + delay, sleeps := sleeps w @ [delay]\<rparr>"

text \<open>Line 53: one GET of the listing URL. The header drawn at random (line 35) is part
  of what the site's reply may depend on, so it is covered by \<open>site\<close>.\<close>

definition httpGet :: "'n env \<Rightarrow> string \<Rightarrow> world \<Rightarrow> httpReply \<times> world" where
  "httpGet env url w =
     (case site env (length (gets w)) url of
        (elapsed, reply) \<Rightarrow> (reply, w\<lparr>now := now w + of_nat elapsed, gets := gets w @ [url]\<rparr>))"

text \<open>The \<open>try\<close> block of lines 46-59.\<close>

definition tryFetch :: "'n env \<Rightarrow> string \<Rightarrow> rat \<Rightarrow> rat \<Rightarrow> world \<Rightarrow> string result" where
  "tryFetch env url startTime maxTimeout w =
     (if now w - startTime > maxTimeout then (Inl MaxTimeout, w)
      else
        (case httpGet env url w of
           (Unreachable msg, w1) \<Rightarrow> (Inl (LibError msg), w1)
         | (Response status statusText body, w1) \<Rightarrow>
             (if \<not> res_ok status then (Inl (FetchStatus status statusText), w1)
              else
                (case body of
                   Inl msg \<Rightarrow> (Inl (LibError msg), w1)
                 | Inr text \<Rightarrow> (Inr text, w1)))))"

text \<open>The \<open>while\<close> loop of lines 45-72, with the \<open>catch\<close> block of lines 60-70; \<open>retries\<close>
  is an integer.\<close>

function fetchLoop :: "'n env \<Rightarrow> string \<Rightarrow> rat \<Rightarrow> rat \<Rightarrow> int \<Rightarrow> world \<Rightarrow> string result" where
  "fetchLoop env url startTime maxTimeout retries w =
     (if retries > 0 then
        (case tryFetch env url startTime maxTimeout w of
           (Inr text, w1) \<Rightarrow> (Inr text, w1)
         | (Inl err, w1) \<Rightarrow>
             (if retries - 1 = 0 then (Inl NetworkRetries, w1)
              else fetchLoop env url startTime maxTimeout (retries - 1)
                     (sleep (backoffDelay (3 - (retries - 1))) w1)))
      else (Inl FetchFailed, w))"
  by pat_completeness auto
termination
  by (relation "measure (\<lambda>(env, url, startTime, maxTimeout, retries, w). nat retries)") auto

declare fetchLoop.simps [simp del]

definition getYad2Response :: "'n env \<Rightarrow> string \<Rightarrow> int \<Rightarrow> rat \<Rightarrow> world \<Rightarrow> string result" where
  "getYad2Response env url retries maxTimeout w =
     fetchLoop env url (now w) maxTimeout retries w"

section \<open>cheerio: the selectors and accessors the scraper uses\<close>

datatype attrTest =
    AttrEquals string string
  | AttrStartsWith string string

text \<open>A compound selector: an optional tag name and attribute tests.\<close>

datatype selector = Selector "string option" "attrTest list"

fun attrHolds :: "(string \<times> string) list \<Rightarrow> attrTest \<Rightarrow> bool" where
  "attrHolds attrs (AttrEquals name v) = (map_of attrs name = Some v)"
| "attrHolds attrs (AttrStartsWith name v) =
     (case map_of attrs name of
        None \<Rightarrow> False
      | Some a \<Rightarrow> v \<noteq> [] \<and> prefix v a)"

fun matches :: "selector \<Rightarrow> node \<Rightarrow> bool" where
  "matches (Selector tag tests) (Element name attrs children) =
     ((case tag of None \<Rightarrow> True | Some t \<Rightarrow> t = name) \<and> list_all (attrHolds attrs) tests)"
| "matches sel (Text t) = False"

text \<open>The nodes strictly below a node, in document order.\<close>

fun descendantsOf :: "node \<Rightarrow> node list" where
  "descendantsOf (Element name attrs children) = concat (map (\<lambda>c. c # descendantsOf c) children)"
| "descendantsOf (Text t) = []"

text \<open>\<open>$(selector)\<close> on the loaded document, and \<open>$(elm).find(selector)\<close>.\<close>

definition select :: "node list \<Rightarrow> selector \<Rightarrow> node list" where
  "select doc sel = filter (matches sel) (concat (map (\<lambda>c. c # descendantsOf c) doc))"

definition find_in :: "node \<Rightarrow> selector \<Rightarrow> node list" where
  "find_in elm sel = filter (matches sel) (descendantsOf elm)"

definition first :: "node list \<Rightarrow> node list" where
  "first ns = take 1 ns"

definition eq_at :: "nat \<Rightarrow> node list \<Rightarrow> node list" where
  "eq_at i ns = take 1 (drop i ns)"

fun textOf :: "node \<Rightarrow> string" where
  "textOf (Text t) = t"
| "textOf (Element name attrs children) = concat (map textOf children)"

definition text_of :: "node list \<Rightarrow> string" where
  "text_of ns = concat (map textOf ns)"

text \<open>\<open>.attr(name)\<close>: the attribute of the first node of the selection, \<open>None\<close> for
  \<open>undefined\<close>.\<close>

fun attr :: "node list \<Rightarrow> string \<Rightarrow> string option" where
  "attr [] name = None"
| "attr (Element tag attrs children # ns) name = map_of attrs name"
| "attr (Text t # ns) name = None"

text \<open>
  The code points that \<open>String.prototype.trim\<close> strips, in UTF-8: the white space of
  ECMAScript (U+0009, U+000B, U+000C, U+0020, U+00A0, U+FEFF and the space separators
  U+1680, U+2000 to U+200A, U+202F, U+205F, U+3000) and its line terminators (U+000A,
  U+000D, U+2028, U+2029).
\<close>

definition whiteSpace :: "string list" where
  "whiteSpace =
     [[CHR 0x09], [CHR 0x0A], [CHR 0x0B], [CHR 0x0C], [CHR 0x0D], [CHR 0x20],
      [CHR 0xC2, CHR 0xA0],
      [CHR 0xE1, CHR 0x9A, CHR 0x80],
      [CHR 0xE2, CHR 0x80, CHR 0x80], [CHR 0xE2, CHR 0x80, CHR 0x81],
      [CHR 0xE2, CHR 0x80, CHR 0x82], [CHR 0xE2, CHR 0x80, CHR 0x83],
      [CHR 0xE2, CHR 0x80, CHR 0x84], [CHR 0xE2, CHR 0x80, CHR 0x85],
      [CHR 0xE2, CHR 0x80, CHR 0x86], [CHR 0xE2, CHR 0x80, CHR 0x87],
      [CHR 0xE2, CHR 0x80, CHR 0x88], [CHR 0xE2, CHR 0x80, CHR 0x89],
      [CHR 0xE2, CHR 0x80, CHR 0x8A],
      [CHR 0xE2, CHR 0x80, CHR 0xA8], [CHR 0xE2, CHR 0x80, CHR 0xA9],
      [CHR 0xE2, CHR 0x80, CHR 0xAF],
      [CHR 0xE2, CHR 0x81, CHR 0x9F],
      [CHR 0xE3, CHR 0x80, CHR 0x80],
      [CHR 0xEF, CHR 0xBB, CHR 0xBF]]"

definition isSpace :: "string \<Rightarrow> bool" where
  "isSpace cp \<longleftrightarrow> cp \<in> set whiteSpace"

text \<open>\<open>String.prototype.trim\<close>: the code points of the string without the white space at
  both ends.\<close>

definition trim :: "string \<Rightarrow> string" where
  "trim s = concat (rev (dropWhile isSpace (rev (dropWhile isSpace (codePoints s)))))"

text \<open>\<open>a || b\<close> and truthiness, on values that are a string, \<open>null\<close> or \<open>undefined\<close>.\<close>

definition truthy :: "string option \<Rightarrow> bool" where
  "truthy v \<longleftrightarrow> (case v of None \<Rightarrow> False | Some s \<Rightarrow> s \<noteq> [])"

definition jsOr :: "string option \<Rightarrow> string option \<Rightarrow> string option" where
  "jsOr a b = (if truthy a then a else b)"

definition orEmpty :: "string option \<Rightarrow> string" where
  "orEmpty v = (case jsOr v (Some []) of None \<Rightarrow> [] | Some s \<Rightarrow> s)"

section \<open>scrapeItemsAndExtractAdDetails (lines 76-134)\<close>

definition titleSel :: selector where
  "titleSel = Selector (Some ''title'') []"

definition itemBasicSel :: selector where
  "itemBasicSel = Selector None [AttrEquals ''data-testid'' ''item-basic'']"

definition possibleSelectors :: "selector list" where
  "possibleSelectors = [itemBasicSel]"

definition imageSel :: selector where
  "imageSel = Selector (Some ''img'') [AttrEquals ''data-testid'' ''image'']"

definition headingSel :: selector where
  "headingSel = Selector None [AttrStartsWith ''class'' ''item-data-content_heading'']"

definition infoLineSel :: selector where
  "infoLineSel = Selector None [AttrStartsWith ''class'' ''item-data-content_itemInfoLine'']"

definition priceSel :: selector where
  "priceSel = Selector None [AttrStartsWith ''class'' ''price_price'']"

definition linkSel :: selector where
  "linkSel = Selector (Some ''a'') [AttrStartsWith ''class'' ''item-layout_itemLink'']"

definition baseUrl :: string where
  "baseUrl = ''https://www.yad2.co.il''"

text \<open>The loop of lines 93-99: \<open>$feedItems\<close> is \<open>None\<close> while it is undefined.\<close>

fun selectorLoop :: "node list \<Rightarrow> selector list \<Rightarrow> node list option \<Rightarrow> node list option" where
  "selectorLoop doc [] feedItems = feedItems"
| "selectorLoop doc (sel # sels) feedItems =
     (let feedItems' = select doc sel in
      if length feedItems' \<noteq> 0 then Some feedItems'
      else selectorLoop doc sels (Some feedItems'))"

text \<open>The callback of \<open>$feedItems.each\<close>, lines 108-130.\<close>

definition extractAd :: "node \<Rightarrow> ad" where
  "extractAd elm =
     (let imageUrl' = attr (find_in elm imageSel) ''src'';
          address' = trim (text_of (eq_at 1 (find_in elm headingSel)));
          description' = trim (text_of (first (find_in elm infoLineSel)));
          structure' = trim (text_of (eq_at 1 (find_in elm infoLineSel)));
          price' = trim (text_of (find_in elm priceSel));
          relativeLink = attr (find_in elm linkSel) ''href'';
          fullLink' = (if truthy relativeLink then baseUrl @ orEmpty relativeLink else [])
      in \<lparr>fullLink = orEmpty (Some fullLink'),
          imageUrl = orEmpty imageUrl',
          address = address',
          description = description',
          structure_line = structure',
          price = price'\<rparr>)"

text \<open>Lines 81-133, on the loaded document.\<close>

definition extractAdDetails :: "node list \<Rightarrow> error + ad list" where
  "extractAdDetails doc =
     (let titleText = text_of (first (select doc titleSel)) in
      if titleText = ''ShieldSquare Captcha'' then Inl BotDetection
      else
        (case selectorLoop doc possibleSelectors None of
           None \<Rightarrow> Inl NoFeedItems
         | Some feedItems \<Rightarrow>
             if length feedItems = 0 then Inl NoFeedItems
             else Inr (map extractAd feedItems)))"

definition scrapeItemsAndExtractAdDetails :: "'n env \<Rightarrow> string \<Rightarrow> world \<Rightarrow> ad list result" where
  "scrapeItemsAndExtractAdDetails env url w =
     (case getYad2Response env url 3 10000 w of
        (Inl e, w1) \<Rightarrow> (Inl e, w1)
      | (Inr yad2Html, w1) \<Rightarrow> (extractAdDetails (cheerio_load env yad2Html), w1))"

section \<open>Telegram (lines 183-238)\<close>

text \<open>One POST to the Telegram API: the request is recorded, the endpoint replies.\<close>

definition post :: "'n env \<Rightarrow> request \<Rightarrow> world \<Rightarrow> httpReply \<times> world" where
  "post env req w = (telegram env (length (sent w)) req, w\<lparr>sent := sent w @ [req]\<rparr>)"

definition sendTelegramMessage :: "'n env \<Rightarrow> string \<Rightarrow> string \<Rightarrow> string \<Rightarrow> world \<Rightarrow> unit result" where
  "sendTelegramMessage env chatId text apiToken w =
     (case post env (SendMessage apiToken chatId text) w of
        (Unreachable msg, w1) \<Rightarrow> (Inl (LibError msg), w1)
      | (Response status statusText body, w1) \<Rightarrow>
          (if \<not> res_ok status then (Inl (SendMessageFailed statusText), w1)
           else (Inr (), w1)))"

definition sendTelegramPhotoMessage ::
  "'n env \<Rightarrow> string \<Rightarrow> string \<Rightarrow> string \<Rightarrow> string \<Rightarrow> world \<Rightarrow> unit result" where
  "sendTelegramPhotoMessage env chatId photoUrl caption apiToken w =
     (case post env (SendPhoto apiToken chatId photoUrl caption) w of
        (Unreachable msg, w1) \<Rightarrow> (Inl (LibError msg), w1)
      | (Response status statusText body, w1) \<Rightarrow>
          (if \<not> res_ok status then (Inl (SendPhotoFailed statusText), w1)
           else (Inr (), w1)))"

section \<open>scrape (lines 241-272)\<close>

text \<open>A number in a template literal: its decimal digits.\<close>

fun decimal :: "nat \<Rightarrow> string" where
  "decimal n =
     (if n < 10 then [char_of (48 + n)]
      else decimal (n div 10) @ [char_of (48 + n mod 10)])"

declare decimal.simps [simp del]

text \<open>The \<open>message\<close> of each error.\<close>

fun message :: "error \<Rightarrow> string" where
  "message MaxTimeout = ''Maximum timeout reached while trying to fetch URL''"
| "message (FetchStatus status statusText) =
     ''Failed to fetch Yad2: '' @ decimal status @ '' '' @ statusText"
| "message NetworkRetries = ''Network error occurred after multiple retries''"
| "message FetchFailed = ''Failed to fetch Yad2 response''"
| "message BotDetection = ''Bot detection encountered, could not proceed''"
| "message NoFeedItems = ''Could not find feed items on the page''"
| "message (CouldNotReadOrCreate filePath) = ''Could not read or create '' @ filePath"
| "message MissingCredentials = ''Missing API_TOKEN or CHAT_ID''"
| "message (SendMessageFailed statusText) = ''Failed to send message: '' @ statusText"
| "message (SendPhotoFailed statusText) = ''Failed to send photo message: '' @ statusText"
| "message (LibError msg) = msg"

text \<open>Lines 243-248: the token and the chat id, \<open>None\<close> when one of them is missing.\<close>

definition credentials :: "'n env \<Rightarrow> (string \<times> string) option" where
  "credentials env =
     (let apiToken = jsOr (env_API_TOKEN env) (config_telegramApiToken env);
          chatId = jsOr (env_CHAT_ID env) (config_chatId env)
      in if \<not> truthy apiToken \<or> \<not> truthy chatId then None
         else Some (orEmpty apiToken, orEmpty chatId))"

text \<open>Line 256: the text of the notification of one item.\<close>

definition itemMsg :: "ad \<Rightarrow> string" where
  "itemMsg item =
     address item @ ''\<newline>'' @ description item @ ''\<newline>'' @ structure_line item @ ''\<newline>'' @
     price item @ ''\<newline>\<newline>'' @ fullLink item"

text \<open>The \<open>for\<close> loop of lines 255-263.\<close>

fun notifyItems :: "'n env \<Rightarrow> string \<Rightarrow> string \<Rightarrow> ad list \<Rightarrow> world \<Rightarrow> unit result" where
  "notifyItems env chatId apiToken [] w = (Inr (), w)"
| "notifyItems env chatId apiToken (item # items) w =
     (case (if imageUrl item \<noteq> []
            then sendTelegramPhotoMessage env chatId (imageUrl item) (itemMsg item) apiToken w
            else sendTelegramMessage env chatId (itemMsg item) apiToken w) of
        (Inl e, w1) \<Rightarrow> (Inl e, w1)
      | (Inr u, w1) \<Rightarrow> notifyItems env chatId apiToken items w1)"

text \<open>The \<open>try\<close> block of lines 250-266.\<close>

definition pipeline :: "'n env \<Rightarrow> string \<Rightarrow> string \<Rightarrow> string \<Rightarrow> string \<Rightarrow> world \<Rightarrow> unit result" where
  "pipeline env topic url chatId apiToken w =
     (case scrapeItemsAndExtractAdDetails env url w of
        (Inl e, w1) \<Rightarrow> (Inl e, w1)
      | (Inr scrapeResults, w1) \<Rightarrow>
          (case checkForNewItems env scrapeResults topic w1 of
             (Inl e, w2) \<Rightarrow> (Inl e, w2)
           | (Inr newItems, w2) \<Rightarrow>
               (if length newItems > 0 then notifyItems env chatId apiToken newItems w2
                else (Inr (), w2))))"

text \<open>Line 269: the text of the failure notification; the bytes between the dots and
  the line feed are those of the source file.\<close>

definition failureText :: "error \<Rightarrow> string" where
  "failureText e =
     (let errMsg = orEmpty (jsOr (Some (message e)) (Some ''Unknown error occurred'')) in
      ''Scan workflow failed... ''
      @ [CHR 0xC3, CHR 0xB0, CHR 0xC5, CHR 0xB8, CHR 0xCB, CHR 0x9C, CHR 0xC2, CHR 0xA5]
      @ ''\<newline>Error: '' @ errMsg)"

definition scrape :: "'n env \<Rightarrow> string \<Rightarrow> string \<Rightarrow> world \<Rightarrow> unit result" where
  "scrape env topic url w =
     (case credentials env of
        None \<Rightarrow> (Inl MissingCredentials, w)
      | Some (apiToken, chatId) \<Rightarrow>
          (case pipeline env topic url chatId apiToken w of
             (Inr u, w1) \<Rightarrow> (Inr (), w1)
           | (Inl e, w1) \<Rightarrow> sendTelegramMessage env chatId (failureText e) apiToken w1))"

section \<open>Notions used to state the properties\<close>

text \<open>The seen-set persisted for a topic when a call starts: the elements that
  \<open>new Set(JSON.parse(data))\<close> yields on the content of the topic's state file, and the
  empty set when there is no file or the content does not yield a set.\<close>

definition persistedSeen :: "'n env \<Rightarrow> string \<Rightarrow> world \<Rightarrow> 'n jsval set" where
  "persistedSeen env topic w =
     (case files w (filePathOf topic) of
        None \<Rightarrow> {}
      | Some data \<Rightarrow>
          (case Option.bind (JSON_parse env data) newSet of
             None \<Rightarrow> {}
           | Some savedAds \<Rightarrow> set savedAds))"

definition unseen :: "'n env \<Rightarrow> string \<Rightarrow> world \<Rightarrow> ad \<Rightarrow> bool" where
  "unseen env topic w a \<longleftrightarrow> JStr (imageUrl a) \<notin> persistedSeen env topic w"

text \<open>No operation of the file system rejects on the four paths a call for the topic
  touches.\<close>

definition ioFaultFree :: "'n env \<Rightarrow> string \<Rightarrow> bool" where
  "ioFaultFree env topic \<longleftrightarrow>
     ioFault env (filePathOf topic) = None \<and>
     ioFault env (filePathOf topic @ ''.backup'') = None \<and>
     ioFault env ''data'' = None \<and>
     ioFault env ''push_me'' = None"

text \<open>\<open>JSON.parse\<close> inverts \<open>JSON.stringify\<close> on a given text.\<close>

definition roundTrips :: "'n env \<Rightarrow> string \<Rightarrow> bool" where
  "roundTrips env data \<longleftrightarrow> (\<forall>v. data = JSON_stringify env v \<longrightarrow> JSON_parse env data = Some v)"

text \<open>The request that notifies one item: a photo when the item has an image URL, a text
  message otherwise.\<close>

definition notificationOf :: "string \<Rightarrow> string \<Rightarrow> ad \<Rightarrow> request" where
  "notificationOf chatId apiToken item =
     (if imageUrl item = [] then SendMessage apiToken chatId (itemMsg item)
      else SendPhoto apiToken chatId (imageUrl item) (itemMsg item))"

text \<open>The Telegram endpoint answers every request with a status in the range 200-299.\<close>

definition telegramAccepts :: "'n env \<Rightarrow> bool" where
  "telegramAccepts env \<longleftrightarrow>
     (\<forall>k req. case telegram env k req of
                Unreachable msg \<Rightarrow> False
              | Response status statusText body \<Rightarrow> res_ok status)"

section \<open>A concrete environment\<close>

definition demoTopic :: string where
  "demoTopic = ''tel-aviv-2br''"

definition demoUrl :: string where
  "demoUrl = ''https://www.yad2.co.il/realestate/rent''"

definition adA :: ad where
  "adA = \<lparr>fullLink = ''https://www.yad2.co.il/item/a'', imageUrl = ''imgA'',
          address = ''Dizengoff 1'', description = ''Apartment'', structure_line = ''2 rooms'',
          price = ''5,000''\<rparr>"

definition adB :: ad where
  "adB = \<lparr>fullLink = ''https://www.yad2.co.il/item/b'', imageUrl = ''imgB'',
          address = ''Allenby 2'', description = ''Apartment'', structure_line = ''3 rooms'',
          price = ''6,000''\<rparr>"

definition adNoImage :: "string \<Rightarrow> ad" where
  "adNoImage street = \<lparr>fullLink = ''https://www.yad2.co.il/item/c'', imageUrl = [],
          address = street, description = ''Studio'', structure_line = ''1 room'',
          price = ''3,000''\<rparr>"

text \<open>The texts \<open>JSON.stringify(v, null, 2)\<close> gives for three arrays, and their parses.\<close>

definition textA :: string where
  \<open>textA = ''[\<newline>  "imgA"\<newline>]''\<close>

definition textAB :: string where
  \<open>textAB = ''[\<newline>  "imgA",\<newline>  "imgB"\<newline>]''\<close>

definition textEmptyKey :: string where
  \<open>textEmptyKey = ''[\<newline>  ""\<newline>]''\<close>

definition demoStringify :: "int jsval \<Rightarrow> string" where
  "demoStringify v =
     (if v = JArr [JStr ''imgA''] then textA
      else if v = JArr [JStr ''imgA'', JStr ''imgB''] then textAB
      else if v = JArr [JStr []] then textEmptyKey
      else if v = JArr [] then ''[]''
      else ''null'')"

definition demoParse :: "string \<Rightarrow> int jsval option" where
  "demoParse data =
     (if data = textA then Some (JArr [JStr ''imgA''])
      else if data = textAB then Some (JArr [JStr ''imgA'', JStr ''imgB''])
      else if data = textEmptyKey then Some (JArr [JStr []])
      else if data = ''[]'' then Some (JArr [])
      else if data = ''null'' then Some JNull
      else None)"

text \<open>The listing site is down, the file system has no fault, Telegram accepts every
  request, and the credentials come from config.json.\<close>

definition demoEnv :: "int env" where
  "demoEnv =
     \<lparr>site = (\<lambda>k url. (100, Unreachable ''connect ECONNREFUSED'')),
      cheerio_load = (\<lambda>html. []),
      JSON_parse = demoParse,
      JSON_stringify = demoStringify,
      ioFault = (\<lambda>path. None),
      telegram = (\<lambda>k req. Response 200 ''OK'' (Inr ''{}'')),
      env_API_TOKEN = None,
      env_CHAT_ID = None,
      config_telegramApiToken = Some ''token'',
      config_chatId = Some ''chat''\<rparr>"

definition worldWith :: "string option \<Rightarrow> world" where
  "worldWith content =
     \<lparr>now = 0, gets = [], sleeps = [],
      files = (\<lambda>path. if path = filePathOf demoTopic then content else None),
      writes = [], sent = []\<rparr>"


text \<open>A listing page with a given title and item nodes; an item node with every
  sub-field, and one with none.\<close>

definition bareItem :: node where
  "bareItem = Element ''div'' [(''data-testid'', ''item-basic'')] [Text ''  '']"

definition fullItem :: node where
  "fullItem =
     Element ''div'' [(''class'', ''card''), (''data-testid'', ''item-basic'')]
       [Element ''a''
          [(''class'', ''item-layout_itemLink__CZZ7w''), (''href'', ''/realestate/item/abc'')]
          [Element ''img'' [(''data-testid'', ''image''), (''src'', ''imgB'')] [],
           Element ''span'' [(''class'', ''price_price__xQt90'')] [Text '' 6,000 ''],
           Element ''h2'' [(''class'', ''item-data-content_heading__tphH4'')] [Text ''Flat''],
           Element ''h2'' [(''class'', ''item-data-content_heading__tphH4'')]
             [Text ''Allenby 2''],
           Element ''span'' [(''class'', ''item-data-content_itemInfoLine__AeoPP'')]
             [Text ''Apartment''],
           Element ''span'' [(''class'', ''item-data-content_itemInfoLine__AeoPP'')]
             [Text ''3 rooms'']]]"

definition pageOf :: "string \<Rightarrow> node list \<Rightarrow> node list" where
  "pageOf title items =
     [Element ''html'' []
        [Element ''head'' [] [Element ''title'' [] [Text title]],
         Element ''body'' [] items]]"

text \<open>The listing site answers every GET after 11 seconds with status 503.\<close>

definition slowEnv :: "int env" where
  "slowEnv = demoEnv\<lparr>site := (\<lambda>k url. (11000, Response 503 ''Service Unavailable'' (Inr [])))\<rparr>"

section \<open>Properties of checkForNewItems\<close>

lemma set_setAdd: "set (setAdd s v) = insert v (set s)"
  by (auto simp: setAdd_def setHas_def)

lemma set_foldl_setAdd: "set (foldl setAdd s xs) = set s \<union> set xs"
  by (induction xs arbitrary: s) (auto simp: set_setAdd)

lemma set_foldl_add_keys:
  "set (foldl (\<lambda>s a. setAdd s (JStr (imageUrl a))) s xs) =
     set s \<union> (\<lambda>a. JStr (imageUrl a)) ` set xs"
  by (induction xs arbitrary: s) (auto simp: set_setAdd)

lemma filePath_neq_push:
  "filePathOf topic \<noteq> ''push_me''"
  "filePathOf topic @ ''.backup'' \<noteq> ''push_me''"
  by (simp_all add: filePathOf_def)

lemma loadSavedAds_Inr:
  assumes "loadSavedAds env (filePathOf topic) w = (Inr s, w1)"
  shows "set s = persistedSeen env topic w"
  using assms
  by (auto simp: loadSavedAds_def persistedSeen_def existsSync_def readFile_def writeFile_def
      mkdir_def split: if_splits option.splits prod.splits sum.splits)

lemma loadSavedAds_files:
  assumes "loadSavedAds env (filePathOf topic) w = (Inr s, w1)"
  shows "existsSync w (filePathOf topic) \<Longrightarrow>
           files w1 (filePathOf topic) = files w (filePathOf topic)"
    and "existsSync w (filePathOf topic) \<Longrightarrow>
           filePathOf topic \<notin> set (drop (length (writes w)) (writes w1))"
    and "\<not> existsSync w (filePathOf topic) \<Longrightarrow> s = []"
  using assms
  by (auto simp: loadSavedAds_def existsSync_def readFile_def writeFile_def mkdir_def
      split: if_splits option.splits prod.splits sum.splits)

lemma loadSavedAds_total:
  assumes "ioFaultFree env topic"
  shows "\<exists>s w1. loadSavedAds env (filePathOf topic) w = (Inr s, w1)"
  using assms
  by (auto simp: ioFaultFree_def loadSavedAds_def existsSync_def readFile_def writeFile_def
      mkdir_def split: if_splits option.splits prod.splits sum.splits)

lemma checkForNewItems_Inr:
  assumes "checkForNewItems env ads topic w = (Inr newItems, w')"
  shows "\<exists>s w1. loadSavedAds env (filePathOf topic) w = (Inr s, w1) \<and>
           newItems = filter (\<lambda>a. JStr (imageUrl a) \<notin> set s) ads \<and>
           (if newItems = [] then w' = w1
            else w' = w1\<lparr>files := (files w1)
                        (filePathOf topic \<mapsto>
                           JSON_stringify env
                             (JArr (foldl (\<lambda>s a. setAdd s (JStr (imageUrl a))) s newItems)),
                         ''push_me'' \<mapsto> ''''),
                      writes := writes w1 @ [filePathOf topic, ''push_me'']\<rparr>)"
  using assms
  by (auto simp: checkForNewItems_def Let_def setHas_def createPushFlagForWorkflow_def
      writeFile_def split: prod.splits sum.splits if_splits option.splits)

lemma checkForNewItems_Inl:
  assumes "checkForNewItems env ads topic w = (Inl e, w')"
  shows "\<not> ioFaultFree env topic"
proof
  assume ok: "ioFaultFree env topic"
  then obtain s w1 where "loadSavedAds env (filePathOf topic) w = (Inr s, w1)"
    using loadSavedAds_total by blast
  with assms ok show False
    by (auto simp: checkForNewItems_def Let_def ioFaultFree_def createPushFlagForWorkflow_def
        writeFile_def split: if_splits)
qed

lemma checkForNewItems_total:
  assumes "ioFaultFree env topic"
  shows "\<exists>newItems w'. checkForNewItems env ads topic w = (Inr newItems, w')"
proof (cases "checkForNewItems env ads topic w")
  case (Pair r w')
  with assms show ?thesis
    by (cases r) (auto dest: checkForNewItems_Inl)
qed

lemma demo_ioFaultFree: "ioFaultFree demoEnv topic"
  by (simp add: ioFaultFree_def demoEnv_def)

lemma demo_seen_A: "persistedSeen demoEnv demoTopic (worldWith (Some textA)) = {JStr ''imgA''}"
  by (simp add: persistedSeen_def worldWith_def demoEnv_def demoParse_def setAdd_def setHas_def)

text \<open>
  Claim C1. For every topic and every list of ads, a call of \<open>checkForNewItems\<close> that
  returns gives exactly the ads of the input whose \<open>imageUrl\<close> is not in the seen-set
  persisted when the call starts, in the order of the input; and the call returns unless
  the file system rejects an operation on one of the topic's paths.
\<close>

theorem checkForNewItems_returns_unseen:
  "(case fst (checkForNewItems env ads topic w) of
      Inr newItems \<Rightarrow> newItems = filter (unseen env topic w) ads \<and> subseq newItems ads
    | Inl e \<Rightarrow> \<not> ioFaultFree env topic)"
proof (cases "checkForNewItems env ads topic w")
  case (Pair r w')
  show ?thesis
  proof (cases r)
    case (Inl e)
    with Pair show ?thesis by (simp add: checkForNewItems_Inl)
  next
    case (Inr newItems)
    with Pair obtain s w1 where l: "loadSavedAds env (filePathOf topic) w = (Inr s, w1)"
      and n: "newItems = filter (\<lambda>a. JStr (imageUrl a) \<notin> set s) ads"
      using checkForNewItems_Inr by blast
    from l have "set s = persistedSeen env topic w" by (rule loadSavedAds_Inr)
    with n have "newItems = filter (unseen env topic w) ads"
      by (simp add: unseen_def fun_eq_iff cong: filter_cong)
    with Pair Inr show ?thesis by simp
  qed
qed

theorem checkForNewItems_returns_unseen_witness:
  "ioFaultFree demoEnv demoTopic \<and>
   fst (checkForNewItems demoEnv [adA, adB] demoTopic (worldWith (Some textA))) = Inr [adB]"
proof -
  have "filter (unseen demoEnv demoTopic (worldWith (Some textA))) [adA, adB] = [adB]"
    by (simp add: unseen_def demo_seen_A adA_def adB_def)
  then show ?thesis
    using checkForNewItems_returns_unseen
            [where env = demoEnv and ads = "[adA, adB]" and topic = demoTopic
               and w = "worldWith (Some textA)"]
    by (cases "fst (checkForNewItems demoEnv [adA, adB] demoTopic (worldWith (Some textA)))")
       (simp_all add: demo_ioFaultFree)
qed

text \<open>
  Claim C4. When the topic's state file exists and \<open>JSON.parse\<close> rejects its content,
  \<open>checkForNewItems\<close> returns (the file system rejecting nothing): it reports every ad of
  the input as new, and afterwards the backup file holds the content that did not parse.
\<close>

theorem corrupt_state_recovery:
  assumes "files w (filePathOf topic) = Some data"
      and "JSON_parse env data = None"
      and "ioFaultFree env topic"
  shows "\<exists>w'. checkForNewItems env ads topic w = (Inr ads, w') \<and>
              files w' (filePathOf topic @ ''.backup'') = Some data"
  using assms filePath_neq_push(2)[of topic]
  by (auto simp: checkForNewItems_def Let_def loadSavedAds_def existsSync_def readFile_def
      writeFile_def createPushFlagForWorkflow_def ioFaultFree_def setHas_def)

theorem corrupt_state_recovery_witness:
  "files (worldWith (Some ''[imgA,'')) (filePathOf demoTopic) = Some ''[imgA,'' \<and>
   JSON_parse demoEnv ''[imgA,'' = None \<and> ioFaultFree demoEnv demoTopic \<and>
   (\<exists>w'. checkForNewItems demoEnv [adA, adB] demoTopic (worldWith (Some ''[imgA,'')) =
           (Inr [adA, adB], w') \<and>
         files w' (filePathOf demoTopic @ ''.backup'') = Some ''[imgA,'')"
proof -
  have a: "files (worldWith (Some ''[imgA,'')) (filePathOf demoTopic) = Some ''[imgA,''"
    by (simp add: worldWith_def)
  have b: "JSON_parse demoEnv ''[imgA,'' = None"
    by (simp add: demoEnv_def demoParse_def textA_def textAB_def textEmptyKey_def)
  show ?thesis
    using a b demo_ioFaultFree
      corrupt_state_recovery [OF a b demo_ioFaultFree, where ads = "[adA, adB]"]
    by simp
qed

lemma demo_check_AB:
  "checkForNewItems demoEnv [adA, adB] demoTopic (worldWith (Some textA)) =
     (Inr [adB], (worldWith (Some textA))
        \<lparr>files := (files (worldWith (Some textA)))
                    (filePathOf demoTopic \<mapsto> textAB, ''push_me'' \<mapsto> []),
         writes := [filePathOf demoTopic, ''push_me'']\<rparr>)"
  by (simp add: checkForNewItems_def Let_def loadSavedAds_def existsSync_def readFile_def
      writeFile_def createPushFlagForWorkflow_def demoEnv_def demoParse_def demoStringify_def
      setHas_def setAdd_def worldWith_def adA_def adB_def)

lemma demo_check_A:
  "checkForNewItems demoEnv [adA] demoTopic (worldWith (Some textA)) =
     (Inr [], worldWith (Some textA))"
  by (simp add: checkForNewItems_def Let_def loadSavedAds_def existsSync_def readFile_def
      demoEnv_def demoParse_def setHas_def setAdd_def worldWith_def adA_def)

text \<open>
  Claim C5. The persisted seen-set only grows. When \<open>checkForNewItems\<close> returns a
  nonempty list, the state file holds \<open>JSON.stringify\<close> of an array whose elements are
  the seen-set loaded at the start together with the \<open>imageUrl\<close> of every new ad. When it
  returns the empty list and the state file existed, the file is not written and keeps
  its content. The call returns unless the file system rejects an operation.
\<close>

theorem seen_set_only_grows:
  "(case checkForNewItems env ads topic w of
      (Inr newItems, w') \<Rightarrow>
        (newItems \<noteq> [] \<longrightarrow>
           (\<exists>savedAds'.
              files w' (filePathOf topic) = Some (JSON_stringify env (JArr savedAds')) \<and>
              set savedAds' =
                persistedSeen env topic w \<union> (\<lambda>a. JStr (imageUrl a)) ` set newItems)) \<and>
        (newItems = [] \<and> existsSync w (filePathOf topic) \<longrightarrow>
           files w' (filePathOf topic) = files w (filePathOf topic) \<and>
           filePathOf topic \<notin> set (drop (length (writes w)) (writes w')))
    | (Inl e, w') \<Rightarrow> \<not> ioFaultFree env topic)"
proof (cases "checkForNewItems env ads topic w")
  case (Pair r w')
  show ?thesis
  proof (cases r)
    case (Inl e)
    with Pair show ?thesis by (simp add: checkForNewItems_Inl)
  next
    case (Inr newItems)
    with Pair have c: "checkForNewItems env ads topic w = (Inr newItems, w')" by simp
    then obtain s w1 where l: "loadSavedAds env (filePathOf topic) w = (Inr s, w1)"
      and w': "if newItems = [] then w' = w1
            else w' = w1\<lparr>files := (files w1)
                        (filePathOf topic \<mapsto>
                           JSON_stringify env
                             (JArr (foldl (\<lambda>s a. setAdd s (JStr (imageUrl a))) s newItems)),
                         ''push_me'' \<mapsto> []),
                      writes := writes w1 @ [filePathOf topic, ''push_me'']\<rparr>"
      using checkForNewItems_Inr by blast
    have s: "set s = persistedSeen env topic w" using l by (rule loadSavedAds_Inr)
    have grow: "newItems \<noteq> [] \<longrightarrow>
           (\<exists>savedAds'.
              files w' (filePathOf topic) = Some (JSON_stringify env (JArr savedAds')) \<and>
              set savedAds' =
                persistedSeen env topic w \<union> (\<lambda>a. JStr (imageUrl a)) ` set newItems)"
    proof
      assume "newItems \<noteq> []"
      with w' have "files w' (filePathOf topic) =
          Some (JSON_stringify env
                  (JArr (foldl (\<lambda>s a. setAdd s (JStr (imageUrl a))) s newItems)))"
        using filePath_neq_push(1)[of topic] by simp
      moreover have "set (foldl (\<lambda>s a. setAdd s (JStr (imageUrl a))) s newItems) =
          persistedSeen env topic w \<union> (\<lambda>a. JStr (imageUrl a)) ` set newItems"
        by (simp add: set_foldl_add_keys s)
      ultimately show "\<exists>savedAds'.
              files w' (filePathOf topic) = Some (JSON_stringify env (JArr savedAds')) \<and>
              set savedAds' =
                persistedSeen env topic w \<union> (\<lambda>a. JStr (imageUrl a)) ` set newItems"
        by blast
    qed
    have keep: "newItems = [] \<and> existsSync w (filePathOf topic) \<longrightarrow>
           files w' (filePathOf topic) = files w (filePathOf topic) \<and>
           filePathOf topic \<notin> set (drop (length (writes w)) (writes w'))"
      using w' loadSavedAds_files(1,2)[OF l] by auto
    from grow keep c show ?thesis by simp
  qed
qed

theorem seen_set_only_grows_witness:
  "(\<exists>savedAds'.
      files (snd (checkForNewItems demoEnv [adA, adB] demoTopic (worldWith (Some textA))))
        (filePathOf demoTopic) = Some (JSON_stringify demoEnv (JArr savedAds')) \<and>
      set savedAds' = {JStr ''imgA'', JStr ''imgB''}) \<and>
   existsSync (worldWith (Some textA)) (filePathOf demoTopic) \<and>
   fst (checkForNewItems demoEnv [adA] demoTopic (worldWith (Some textA))) = Inr [] \<and>
   files (snd (checkForNewItems demoEnv [adA] demoTopic (worldWith (Some textA))))
     (filePathOf demoTopic) = Some textA \<and>
   filePathOf demoTopic \<notin>
     set (writes (snd (checkForNewItems demoEnv [adA] demoTopic (worldWith (Some textA)))))"
proof -
  have "\<exists>savedAds'.
      files (snd (checkForNewItems demoEnv [adA, adB] demoTopic (worldWith (Some textA))))
        (filePathOf demoTopic) = Some (JSON_stringify demoEnv (JArr savedAds')) \<and>
      set savedAds' = {JStr ''imgA'', JStr ''imgB''}"
    using seen_set_only_grows
          [where env = demoEnv and ads = "[adA, adB]" and topic = demoTopic
             and w = "worldWith (Some textA)"]
    unfolding demo_check_AB
    by (simp add: demo_seen_A adB_def insert_commute)
  moreover have "existsSync (worldWith (Some textA)) (filePathOf demoTopic)"
    by (simp add: existsSync_def worldWith_def)
  moreover have "fst (checkForNewItems demoEnv [adA] demoTopic (worldWith (Some textA))) = Inr []"
    by (simp add: demo_check_A)
  moreover have "files (snd (checkForNewItems demoEnv [adA] demoTopic (worldWith (Some textA))))
     (filePathOf demoTopic) = Some textA \<and>
     filePathOf demoTopic \<notin>
     set (writes (snd (checkForNewItems demoEnv [adA] demoTopic (worldWith (Some textA)))))"
    using seen_set_only_grows
          [where env = demoEnv and ads = "[adA]" and topic = demoTopic
             and w = "worldWith (Some textA)"]
    unfolding demo_check_A
    by (simp add: existsSync_def worldWith_def)
  ultimately show ?thesis by blast
qed

text \<open>
  Claim C9, as amended. Two calls of \<open>checkForNewItems\<close> in succession on the same list
  of ads, the file system rejecting nothing and \<open>JSON.parse\<close> inverting
  \<open>JSON.stringify\<close> on the content left in the state file: both calls return, the second
  returns the empty list, and the first returns a nonempty list exactly when some ad of
  the input has an \<open>imageUrl\<close> outside the seen-set persisted at the start.
\<close>

theorem second_run_finds_nothing:
  assumes ok: "ioFaultFree env topic"
      and rt: "\<forall>data. files (snd (checkForNewItems env ads topic w)) (filePathOf topic) = Some data
                 \<longrightarrow> roundTrips env data"
  shows "\<exists>new1 w1 w2.
           checkForNewItems env ads topic w = (Inr new1, w1) \<and>
           checkForNewItems env ads topic w1 = (Inr [], w2) \<and>
           (new1 \<noteq> [] \<longleftrightarrow> (\<exists>a \<in> set ads. unseen env topic w a))"
proof -
  obtain new1 w1 where c1: "checkForNewItems env ads topic w = (Inr new1, w1)"
    using checkForNewItems_total [OF ok] by blast
  obtain new2 w2 where c2: "checkForNewItems env ads topic w1 = (Inr new2, w2)"
    using checkForNewItems_total [OF ok] by blast
  obtain s wl where l: "loadSavedAds env (filePathOf topic) w = (Inr s, wl)"
    and n1: "new1 = filter (\<lambda>a. JStr (imageUrl a) \<notin> set s) ads"
    and w1: "if new1 = [] then w1 = wl
            else w1 = wl\<lparr>files := (files wl)
                        (filePathOf topic \<mapsto>
                           JSON_stringify env
                             (JArr (foldl (\<lambda>s a. setAdd s (JStr (imageUrl a))) s new1)),
                         ''push_me'' \<mapsto> []),
                      writes := writes wl @ [filePathOf topic, ''push_me'']\<rparr>"
    using checkForNewItems_Inr [OF c1] by blast
  obtain s2 wl2 where l2: "loadSavedAds env (filePathOf topic) w1 = (Inr s2, wl2)"
    and n2: "new2 = filter (\<lambda>a. JStr (imageUrl a) \<notin> set s2) ads"
    using checkForNewItems_Inr [OF c2] by blast
  have s: "set s = persistedSeen env topic w" using l by (rule loadSavedAds_Inr)
  have s2: "set s2 = persistedSeen env topic w1" using l2 by (rule loadSavedAds_Inr)
  have first: "new1 \<noteq> [] \<longleftrightarrow> (\<exists>a \<in> set ads. unseen env topic w a)"
    by (auto simp: n1 s unseen_def filter_empty_conv)
  have "new2 = []"
  proof (cases "new1 = []")
    case True
    then have same: "w1 = wl" using w1 by simp
    have all: "\<forall>a \<in> set ads. JStr (imageUrl a) \<in> set s"
      using True by (auto simp: n1 filter_empty_conv)
    show ?thesis
    proof (cases "existsSync w (filePathOf topic)")
      case True
      then have "files w1 (filePathOf topic) = files w (filePathOf topic)"
        using loadSavedAds_files(1) [OF l] same by simp
      then have "persistedSeen env topic w1 = persistedSeen env topic w"
        by (simp add: persistedSeen_def)
      with all s s2 show ?thesis by (auto simp: n2 filter_empty_conv)
    next
      case False
      then have "s = []" using loadSavedAds_files(3) [OF l] by simp
      with all have "ads = []" by (cases ads) auto
      then show ?thesis by (simp add: n2)
    qed
  next
    case False
    let ?s' = "foldl (\<lambda>s a. setAdd s (JStr (imageUrl a))) s new1"
    let ?data = "JSON_stringify env (JArr ?s')"
    have f: "files w1 (filePathOf topic) = Some ?data"
      using False w1 filePath_neq_push(1) [of topic] by simp
    then have "roundTrips env ?data" using rt c1 by simp
    then have "JSON_parse env ?data = Some (JArr ?s')"
      by (simp add: roundTrips_def)
    with f have "persistedSeen env topic w1 = set ?s'"
      by (simp add: persistedSeen_def set_foldl_setAdd)
    then have "set s2 = set s \<union> (\<lambda>a. JStr (imageUrl a)) ` set new1"
      using s2 by (simp add: set_foldl_add_keys)
    then have "\<forall>a \<in> set ads. JStr (imageUrl a) \<in> set s2"
      by (auto simp: n1)
    then show ?thesis by (auto simp: n2 filter_empty_conv)
  qed
  with c1 c2 first show ?thesis by blast
qed

lemma demo_roundTrips_AB: "roundTrips demoEnv textAB"
  by (auto simp: roundTrips_def demoEnv_def demoStringify_def demoParse_def textA_def textAB_def
      textEmptyKey_def split: if_splits)

theorem second_run_finds_nothing_witness:
  "ioFaultFree demoEnv demoTopic \<and>
   roundTrips demoEnv textAB \<and>
   files (snd (checkForNewItems demoEnv [adA, adB] demoTopic (worldWith (Some textA))))
     (filePathOf demoTopic) = Some textAB \<and>
   fst (checkForNewItems demoEnv [adA, adB] demoTopic (worldWith (Some textA))) = Inr [adB] \<and>
   fst (checkForNewItems demoEnv [adA, adB] demoTopic
          (snd (checkForNewItems demoEnv [adA, adB] demoTopic (worldWith (Some textA))))) = Inr []"
proof -
  have f: "files (snd (checkForNewItems demoEnv [adA, adB] demoTopic (worldWith (Some textA))))
     (filePathOf demoTopic) = Some textAB"
    using filePath_neq_push(1) [of demoTopic] by (simp add: demo_check_AB)
  then have rt: "\<forall>data.
      files (snd (checkForNewItems demoEnv [adA, adB] demoTopic (worldWith (Some textA))))
        (filePathOf demoTopic) = Some data \<longrightarrow> roundTrips demoEnv data"
    by (simp add: demo_roundTrips_AB)
  from second_run_finds_nothing [OF demo_ioFaultFree rt]
  have "fst (checkForNewItems demoEnv [adA, adB] demoTopic
          (snd (checkForNewItems demoEnv [adA, adB] demoTopic (worldWith (Some textA))))) = Inr []"
    by auto
  with f show ?thesis
    by (simp add: demo_ioFaultFree demo_roundTrips_AB demo_check_AB)
qed

text \<open>The claim as stated fails: with \<open>imgA\<close> already in the seen-set, the first call on
  the one-element list \<open>[adA]\<close> returns the empty list.\<close>

theorem first_run_may_find_nothing:
  "fst (checkForNewItems demoEnv [adA] demoTopic (worldWith (Some textA))) = Inr [] \<and>
   persistedSeen demoEnv demoTopic (worldWith (Some textA)) = {JStr ''imgA''}"
  by (simp add: demo_check_A demo_seen_A)

section \<open>Properties of the notification loop\<close>

lemma sendTelegramMessage_sent:
  "sent (snd (sendTelegramMessage env chatId msg apiToken w)) =
     sent w @ [SendMessage apiToken chatId msg]"
  by (simp add: sendTelegramMessage_def post_def split: httpReply.splits)

lemma sendTelegramPhotoMessage_sent:
  "sent (snd (sendTelegramPhotoMessage env chatId photoUrl caption apiToken w)) =
     sent w @ [SendPhoto apiToken chatId photoUrl caption]"
  by (simp add: sendTelegramPhotoMessage_def post_def split: httpReply.splits)

lemma sendTelegramMessage_accepted:
  assumes "telegramAccepts env"
  shows "fst (sendTelegramMessage env chatId msg apiToken w) = Inr ()"
proof -
  have "case telegram env (length (sent w)) (SendMessage apiToken chatId msg) of
          Unreachable msg \<Rightarrow> False
        | Response status statusText body \<Rightarrow> res_ok status"
    using assms by (simp add: telegramAccepts_def)
  then show ?thesis
    by (auto simp: sendTelegramMessage_def post_def split: httpReply.splits)
qed

lemma sendTelegramPhotoMessage_accepted:
  assumes "telegramAccepts env"
  shows "fst (sendTelegramPhotoMessage env chatId photoUrl caption apiToken w) = Inr ()"
proof -
  have "case telegram env (length (sent w)) (SendPhoto apiToken chatId photoUrl caption) of
          Unreachable msg \<Rightarrow> False
        | Response status statusText body \<Rightarrow> res_ok status"
    using assms by (simp add: telegramAccepts_def)
  then show ?thesis
    by (auto simp: sendTelegramPhotoMessage_def post_def split: httpReply.splits)
qed

lemma notifyItems_sent:
  "notifyItems env chatId apiToken items w = (Inr (), w') \<Longrightarrow>
     sent w' = sent w @ map (notificationOf chatId apiToken) items"
proof (induction items arbitrary: w)
  case Nil
  then show ?case by simp
next
  case (Cons item items)
  let ?step = "if imageUrl item \<noteq> []
      then sendTelegramPhotoMessage env chatId (imageUrl item) (itemMsg item) apiToken w
      else sendTelegramMessage env chatId (itemMsg item) apiToken w"
  obtain r w1 where step: "?step = (r, w1)" by (cases ?step)
  with Cons.prems obtain u where r: "r = Inr u"
    and rest: "notifyItems env chatId apiToken items w1 = (Inr (), w')"
    by (cases r) auto
  have "sent w1 = sent w @ [notificationOf chatId apiToken item]"
    using step sendTelegramMessage_sent [of env chatId "itemMsg item" apiToken w]
      sendTelegramPhotoMessage_sent [of env chatId "imageUrl item" "itemMsg item" apiToken w]
    by (auto simp: notificationOf_def split: if_splits)
  with Cons.IH [OF rest] show ?case by simp
qed

lemma notifyItems_total:
  assumes "telegramAccepts env"
  shows "\<exists>w'. notifyItems env chatId apiToken items w = (Inr (), w')"
proof (induction items arbitrary: w)
  case Nil
  show ?case by simp
next
  case (Cons item items)
  let ?step = "if imageUrl item \<noteq> []
      then sendTelegramPhotoMessage env chatId (imageUrl item) (itemMsg item) apiToken w
      else sendTelegramMessage env chatId (itemMsg item) apiToken w"
  obtain r w1 where step: "?step = (r, w1)" by (cases ?step)
  have "fst ?step = Inr ()"
    using sendTelegramMessage_accepted [OF assms] sendTelegramPhotoMessage_accepted [OF assms]
    by simp
  with step have "?step = (Inr (), w1)" by simp
  with Cons.IH [of w1] show ?case by simp
qed

lemma subseq_nth_pair:
  assumes "i < j" and "j < length xs"
  shows "subseq [xs ! i, xs ! j] xs"
proof -
  have "xs = take i xs @ xs ! i # drop (Suc i) xs"
    using assms by (simp add: id_take_nth_drop)
  moreover have "drop (Suc i) xs =
      take (j - Suc i) (drop (Suc i) xs) @ xs ! j # drop (Suc j) xs"
    using assms id_take_nth_drop [of "j - Suc i" "drop (Suc i) xs"] by simp
  ultimately have "xs =
      take i xs @ [xs ! i] @ take (j - Suc i) (drop (Suc i) xs) @ [xs ! j] @ drop (Suc j) xs"
    by simp
  moreover have "subseq ([] @ [xs ! i] @ [] @ [xs ! j] @ [])
     (take i xs @ [xs ! i] @ take (j - Suc i) (drop (Suc i) xs) @ [xs ! j] @ drop (Suc j) xs)"
    by (intro list_emb_append_mono) auto
  ultimately show ?thesis by simp
qed

text \<open>
  Claim C10. Within one call of \<open>checkForNewItems\<close> the input is filtered against the
  seen-set loaded before the filter only: two ads of the input, at positions \<open>i < j\<close>, that
  share an \<open>imageUrl\<close> outside that seen-set (the empty string included) are both
  returned, in this order; and, Telegram accepting every request, the notification loop
  on the returned list completes and issues exactly one request per returned ad, in
  order, so both are notified.
\<close>

theorem duplicates_both_new_and_notified:
  assumes "checkForNewItems env ads topic w = (Inr newItems, w')"
      and "i < j" and "j < length ads"
      and "imageUrl (ads ! i) = imageUrl (ads ! j)"
      and "unseen env topic w (ads ! i)"
      and "telegramAccepts env"
  shows "subseq [ads ! i, ads ! j] newItems \<and>
         (\<exists>w''. notifyItems env chatId apiToken newItems w' = (Inr (), w'') \<and>
                sent w'' = sent w' @ map (notificationOf chatId apiToken) newItems)"
proof -
  obtain s w1 where l: "loadSavedAds env (filePathOf topic) w = (Inr s, w1)"
    and n: "newItems = filter (\<lambda>a. JStr (imageUrl a) \<notin> set s) ads"
    using checkForNewItems_Inr [OF assms(1)] by blast
  have s: "set s = persistedSeen env topic w" using l by (rule loadSavedAds_Inr)
  have "subseq (filter (\<lambda>a. JStr (imageUrl a) \<notin> set s) [ads ! i, ads ! j])
          (filter (\<lambda>a. JStr (imageUrl a) \<notin> set s) ads)"
    using subseq_nth_pair [OF assms(2,3)] by (rule subseq_filter)
  moreover have "filter (\<lambda>a. JStr (imageUrl a) \<notin> set s) [ads ! i, ads ! j] =
      [ads ! i, ads ! j]"
    using assms(4,5) by (simp add: unseen_def s)
  ultimately have both: "subseq [ads ! i, ads ! j] newItems" by (simp add: n)
  obtain w'' where fin: "notifyItems env chatId apiToken newItems w' = (Inr (), w'')"
    using notifyItems_total [OF assms(6)] by blast
  with notifyItems_sent [OF fin] both show ?thesis by simp
qed

lemma demo_check_noImage:
  "checkForNewItems demoEnv [adNoImage ''Herzl 3'', adNoImage ''Herzl 4''] demoTopic
     (worldWith None) =
     (Inr [adNoImage ''Herzl 3'', adNoImage ''Herzl 4''],
      (worldWith None)
        \<lparr>files := (files (worldWith None))
                    (filePathOf demoTopic \<mapsto> textEmptyKey, ''push_me'' \<mapsto> []),
         writes := [filePathOf demoTopic, filePathOf demoTopic, ''push_me'']\<rparr>)"
  by (simp add: checkForNewItems_def Let_def loadSavedAds_def existsSync_def mkdir_def
      writeFile_def createPushFlagForWorkflow_def demoEnv_def demoStringify_def
      setHas_def setAdd_def worldWith_def adNoImage_def)

lemma demo_telegramAccepts: "telegramAccepts demoEnv"
  by (simp add: telegramAccepts_def demoEnv_def res_ok_def)

theorem duplicates_both_new_and_notified_witness:
  "fst (checkForNewItems demoEnv [adNoImage ''Herzl 3'', adNoImage ''Herzl 4''] demoTopic
          (worldWith None)) = Inr [adNoImage ''Herzl 3'', adNoImage ''Herzl 4''] \<and>
   imageUrl (adNoImage ''Herzl 3'') = imageUrl (adNoImage ''Herzl 4'') \<and>
   adNoImage ''Herzl 3'' \<noteq> adNoImage ''Herzl 4'' \<and>
   unseen demoEnv demoTopic (worldWith None) (adNoImage ''Herzl 3'') \<and>
   telegramAccepts demoEnv \<and>
   sent (snd (notifyItems demoEnv ''chat'' ''token''
                [adNoImage ''Herzl 3'', adNoImage ''Herzl 4'']
                (snd (checkForNewItems demoEnv [adNoImage ''Herzl 3'', adNoImage ''Herzl 4'']
                        demoTopic (worldWith None))))) =
     [SendMessage ''token'' ''chat'' (itemMsg (adNoImage ''Herzl 3'')),
      SendMessage ''token'' ''chat'' (itemMsg (adNoImage ''Herzl 4''))]"
proof -
  let ?ads = "[adNoImage ''Herzl 3'', adNoImage ''Herzl 4'']"
  have same: "imageUrl (?ads ! 0) = imageUrl (?ads ! 1)"
    by (simp add: adNoImage_def)
  have new: "unseen demoEnv demoTopic (worldWith None) (?ads ! 0)"
    by (simp add: unseen_def persistedSeen_def worldWith_def)
  let ?W = "(worldWith None)
        \<lparr>files := (files (worldWith None))
                    (filePathOf demoTopic \<mapsto> textEmptyKey, ''push_me'' \<mapsto> []),
         writes := [filePathOf demoTopic, filePathOf demoTopic, ''push_me'']\<rparr>"
  have c: "snd (checkForNewItems demoEnv ?ads demoTopic (worldWith None)) = ?W"
    by (simp only: demo_check_noImage snd_conv)
  have e: "sent ?W = []" by (simp add: worldWith_def)
  have "(0::nat) < 1" and "1 < length ?ads" by simp_all
  from duplicates_both_new_and_notified
         [OF demo_check_noImage this same new demo_telegramAccepts,
          where chatId = "''chat''" and apiToken = "''token''"]
  obtain w'' where a: "notifyItems demoEnv ''chat'' ''token'' ?ads ?W = (Inr (), w'')"
    and b: "sent w'' = sent ?W @ map (notificationOf ''chat'' ''token'') ?ads"
    by blast
  have "sent (snd (notifyItems demoEnv ''chat'' ''token'' ?ads
                (snd (checkForNewItems demoEnv ?ads demoTopic (worldWith None))))) = sent w''"
    by (simp only: c a snd_conv)
  also have "\<dots> = [SendMessage ''token'' ''chat'' (itemMsg (adNoImage ''Herzl 3'')),
      SendMessage ''token'' ''chat'' (itemMsg (adNoImage ''Herzl 4''))]"
    using b e by (simp add: notificationOf_def adNoImage_def)
  finally have n: "sent (snd (notifyItems demoEnv ''chat'' ''token'' ?ads
                (snd (checkForNewItems demoEnv ?ads demoTopic (worldWith None))))) =
      [SendMessage ''token'' ''chat'' (itemMsg (adNoImage ''Herzl 3'')),
       SendMessage ''token'' ''chat'' (itemMsg (adNoImage ''Herzl 4''))]" .
  have "adNoImage ''Herzl 3'' \<noteq> adNoImage ''Herzl 4''"
    by (simp add: adNoImage_def)
  moreover have "fst (checkForNewItems demoEnv ?ads demoTopic (worldWith None)) = Inr ?ads"
    by (simp only: demo_check_noImage fst_conv)
  ultimately show ?thesis
    using new same n demo_telegramAccepts by simp
qed

section \<open>Properties of the extraction\<close>

lemma trim_Nil: "trim [] = []"
  by (simp add: trim_def)

lemma text_of_Nil: "text_of [] = []"
  by (simp add: text_of_def)

lemma eq_at_short: "length ns \<le> i \<Longrightarrow> eq_at i ns = []"
  by (simp add: eq_at_def)

lemma extractAdDetails_items:
  assumes "text_of (first (select doc titleSel)) \<noteq> ''ShieldSquare Captcha''"
      and "select doc itemBasicSel \<noteq> []"
  shows "extractAdDetails doc = Inr (map extractAd (select doc itemBasicSel))"
  using assms by (simp add: extractAdDetails_def possibleSelectors_def Let_def)

text \<open>
  Claim C7. A document whose first \<open>title\<close> element has the text of the bot challenge
  makes the extraction fail with the bot-detection error, whatever else the document
  holds: the check precedes the resolution of the selectors, so the error is never the one
  of a page without items.
\<close>

theorem bot_block_before_selectors:
  assumes "text_of (first (select doc titleSel)) = ''ShieldSquare Captcha''"
  shows "extractAdDetails doc = Inl BotDetection \<and> extractAdDetails doc \<noteq> Inl NoFeedItems"
  using assms by (simp add: extractAdDetails_def Let_def)

theorem bot_block_before_selectors_witness:
  "text_of (first (select (pageOf ''ShieldSquare Captcha'' [fullItem]) titleSel)) =
     ''ShieldSquare Captcha'' \<and>
   select (pageOf ''ShieldSquare Captcha'' [fullItem]) itemBasicSel = [fullItem] \<and>
   extractAdDetails (pageOf ''ShieldSquare Captcha'' [fullItem]) = Inl BotDetection \<and>
   select (pageOf ''ShieldSquare Captcha'' []) itemBasicSel = [] \<and>
   extractAdDetails (pageOf ''ShieldSquare Captcha'' []) = Inl BotDetection"
proof -
  have t: "text_of (first (select (pageOf ''ShieldSquare Captcha'' items) titleSel)) =
      ''ShieldSquare Captcha''" for items
    by (simp add: pageOf_def select_def titleSel_def first_def text_of_def fullItem_def)
  have "select (pageOf ''ShieldSquare Captcha'' [fullItem]) itemBasicSel = [fullItem]"
    by (simp add: pageOf_def select_def itemBasicSel_def fullItem_def)
  moreover have "select (pageOf ''ShieldSquare Captcha'' []) itemBasicSel = []"
    by (simp add: pageOf_def select_def itemBasicSel_def)
  ultimately show ?thesis
    using t bot_block_before_selectors [OF t [of "[fullItem]"]]
      bot_block_before_selectors [OF t [of "[]"]]
    by simp
qed

lemma extractAd_fields:
  "(attr (find_in elm imageSel) ''src'' = None \<longrightarrow> imageUrl (extractAd elm) = []) \<and>
   (length (find_in elm headingSel) < 2 \<longrightarrow> address (extractAd elm) = []) \<and>
   (find_in elm infoLineSel = [] \<longrightarrow> description (extractAd elm) = []) \<and>
   (length (find_in elm infoLineSel) < 2 \<longrightarrow> structure_line (extractAd elm) = []) \<and>
   (find_in elm priceSel = [] \<longrightarrow> price (extractAd elm) = []) \<and>
   fullLink (extractAd elm) =
     (case attr (find_in elm linkSel) ''href'' of
        None \<Rightarrow> []
      | Some relativeLink \<Rightarrow> if relativeLink = [] then [] else baseUrl @ relativeLink)"
  by (auto simp: extractAd_def Let_def orEmpty_def jsOr_def truthy_def trim_Nil text_of_Nil
      eq_at_short first_def baseUrl_def split: option.splits)

text \<open>
  Claim C8. When the extraction gets past the bot check and some node matches the item
  selector, it returns one record per matched node, in document order, whatever
  sub-fields the nodes have: a record's field is the empty string when the node has no
  image source, fewer than two headings (the address is the second one), no info line,
  fewer than two info lines, or no price element; and \<open>fullLink\<close> is the origin followed by
  the \<open>href\<close> of the node's item link when that is a non-empty string, and the empty
  string otherwise.
\<close>

theorem one_record_per_item_node:
  assumes "text_of (first (select doc titleSel)) \<noteq> ''ShieldSquare Captcha''"
      and "select doc itemBasicSel \<noteq> []"
  shows "\<exists>ads. extractAdDetails doc = Inr ads \<and>
           length ads = length (select doc itemBasicSel) \<and>
           (\<forall>i < length ads.
              let elm = select doc itemBasicSel ! i; r = ads ! i in
                (attr (find_in elm imageSel) ''src'' = None \<longrightarrow> imageUrl r = []) \<and>
                (length (find_in elm headingSel) < 2 \<longrightarrow> address r = []) \<and>
                (find_in elm infoLineSel = [] \<longrightarrow> description r = []) \<and>
                (length (find_in elm infoLineSel) < 2 \<longrightarrow> structure_line r = []) \<and>
                (find_in elm priceSel = [] \<longrightarrow> price r = []) \<and>
                fullLink r =
                  (case attr (find_in elm linkSel) ''href'' of
                     None \<Rightarrow> []
                   | Some relativeLink \<Rightarrow>
                       if relativeLink = [] then [] else baseUrl @ relativeLink))"
proof -
  have "extractAdDetails doc = Inr (map extractAd (select doc itemBasicSel))"
    using assms by (rule extractAdDetails_items)
  then show ?thesis
    using extractAd_fields by (simp add: Let_def)
qed

lemma demo_select_items:
  "select (pageOf ''Yad2'' [fullItem, bareItem]) itemBasicSel = [fullItem, bareItem]"
  by (simp add: pageOf_def select_def itemBasicSel_def fullItem_def bareItem_def)

lemma demo_title: "text_of (first (select (pageOf ''Yad2'' items) titleSel)) = ''Yad2''"
  by (simp add: pageOf_def select_def titleSel_def first_def text_of_def)

lemma demo_bareItem_finds:
  "find_in bareItem imageSel = []" "find_in bareItem headingSel = []"
  "find_in bareItem infoLineSel = []" "find_in bareItem priceSel = []"
  "find_in bareItem linkSel = []"
  by (simp_all add: find_in_def bareItem_def)

theorem one_record_per_item_node_witness:
  "text_of (first (select (pageOf ''Yad2'' [fullItem, bareItem]) titleSel)) \<noteq>
     ''ShieldSquare Captcha'' \<and>
   select (pageOf ''Yad2'' [fullItem, bareItem]) itemBasicSel = [fullItem, bareItem] \<and>
   find_in bareItem imageSel = [] \<and> find_in bareItem linkSel = [] \<and>
   (\<exists>r. extractAdDetails (pageOf ''Yad2'' [fullItem, bareItem]) = Inr [extractAd fullItem, r] \<and>
        fullLink r = [] \<and> imageUrl r = [] \<and> address r = [] \<and> description r = [] \<and>
        structure_line r = [] \<and> price r = []) \<and>
   fullLink (extractAd fullItem) = ''https://www.yad2.co.il/realestate/item/abc''"
proof -
  let ?doc = "pageOf ''Yad2'' [fullItem, bareItem]"
  have t: "text_of (first (select ?doc titleSel)) \<noteq> ''ShieldSquare Captcha''"
    by (simp add: demo_title)
  have n: "select ?doc itemBasicSel \<noteq> []"
    by (simp add: demo_select_items)
  obtain ads where e: "extractAdDetails ?doc = Inr ads" and l: "length ads = 2"
    and f: "\<forall>i < length ads.
              let elm = select ?doc itemBasicSel ! i; r = ads ! i in
                (attr (find_in elm imageSel) ''src'' = None \<longrightarrow> imageUrl r = []) \<and>
                (length (find_in elm headingSel) < 2 \<longrightarrow> address r = []) \<and>
                (find_in elm infoLineSel = [] \<longrightarrow> description r = []) \<and>
                (length (find_in elm infoLineSel) < 2 \<longrightarrow> structure_line r = []) \<and>
                (find_in elm priceSel = [] \<longrightarrow> price r = []) \<and>
                fullLink r =
                  (case attr (find_in elm linkSel) ''href'' of
                     None \<Rightarrow> []
                   | Some relativeLink \<Rightarrow>
                       if relativeLink = [] then [] else baseUrl @ relativeLink)"
    using one_record_per_item_node [OF t n] by (auto simp: demo_select_items)
  have "ads = map extractAd [fullItem, bareItem]"
    using e extractAdDetails_items [OF t n] by (simp add: demo_select_items)
  then have ads: "ads = [extractAd fullItem, ads ! 1]" by simp
  from f l have "let elm = select ?doc itemBasicSel ! 1; r = ads ! 1 in
                (attr (find_in elm imageSel) ''src'' = None \<longrightarrow> imageUrl r = []) \<and>
                (length (find_in elm headingSel) < 2 \<longrightarrow> address r = []) \<and>
                (find_in elm infoLineSel = [] \<longrightarrow> description r = []) \<and>
                (length (find_in elm infoLineSel) < 2 \<longrightarrow> structure_line r = []) \<and>
                (find_in elm priceSel = [] \<longrightarrow> price r = []) \<and>
                fullLink r =
                  (case attr (find_in elm linkSel) ''href'' of
                     None \<Rightarrow> []
                   | Some relativeLink \<Rightarrow>
                       if relativeLink = [] then [] else baseUrl @ relativeLink)"
    by simp
  then have "fullLink (ads ! 1) = [] \<and> imageUrl (ads ! 1) = [] \<and> address (ads ! 1) = [] \<and>
      description (ads ! 1) = [] \<and> structure_line (ads ! 1) = [] \<and> price (ads ! 1) = []"
    by (simp add: demo_select_items demo_bareItem_finds Let_def)
  moreover have "fullLink (extractAd fullItem) = ''https://www.yad2.co.il/realestate/item/abc''"
    by (simp add: extractAd_def fullItem_def find_in_def linkSel_def truthy_def orEmpty_def
        jsOr_def baseUrl_def Let_def)
  ultimately show ?thesis
    using t e ads demo_select_items demo_bareItem_finds(1,5) by metis
qed

section \<open>Properties of the fetcher\<close>

lemma tryFetch_sleeps: "sleeps (snd (tryFetch env url st mt w)) = sleeps w"
  by (simp add: tryFetch_def httpGet_def split: prod.splits httpReply.splits sum.splits)

lemma upto_rev_step: "1 < (r::int) \<Longrightarrow> rev [1..r - 1] = (r - 1) # rev [1..r - 1 - 1]"
  by (simp add: upto_rec2)

lemma backoffDelay_pos: "0 < backoffDelay attempt"
  by (simp add: backoffDelay_def)

text \<open>When every attempt fails, the loop ends with the error of exhausted retries, and
  it has waited \<open>backoffDelay (3 - r)\<close> for \<open>r\<close> from \<open>retries - 1\<close> down to 1: the wait
  before the \<open>i\<close>-th retry is \<open>2 ^ (i + 3 - retries)\<close> seconds.\<close>

lemma fetchLoop_all_attempts_fail:
  assumes "\<And>w. \<exists>e w'. tryFetch env url st mt w = (Inl e, w')"
      and "retries > 0"
  shows "fst (fetchLoop env url st mt retries w) = Inl NetworkRetries \<and>
         sleeps (snd (fetchLoop env url st mt retries w)) =
           sleeps w @ map (\<lambda>r. backoffDelay (3 - r)) (rev [1..retries - 1])"
  using assms
proof (induction env url st mt retries w rule: fetchLoop.induct)
  case (1 env url st mt retries w)
  obtain e w1 where t: "tryFetch env url st mt w = (Inl e, w1)"
    using "1.prems"(1) by blast
  have s1: "sleeps w1 = sleeps w"
    using tryFetch_sleeps [of env url st mt w] t by simp
  show ?case
  proof (cases "retries - 1 = 0")
    case True
    then show ?thesis
      using t s1 "1.prems"(2) by (subst (1 2) fetchLoop.simps) simp
  next
    case False
    then have pos: "retries - 1 > 0" using "1.prems"(2) by simp
    have ih: "fst (fetchLoop env url st mt (retries - 1)
                     (sleep (backoffDelay (3 - (retries - 1))) w1)) = Inl NetworkRetries \<and>
         sleeps (snd (fetchLoop env url st mt (retries - 1)
                        (sleep (backoffDelay (3 - (retries - 1))) w1))) =
           sleeps (sleep (backoffDelay (3 - (retries - 1))) w1) @
           map (\<lambda>r. backoffDelay (3 - r)) (rev [1..retries - 1 - 1])"
      using "1.IH" [OF "1.prems"(2) t [symmetric] refl False "1.prems"(1) pos] .
    have "fetchLoop env url st mt retries w =
        fetchLoop env url st mt (retries - 1) (sleep (backoffDelay (3 - (retries - 1))) w1)"
      using t False "1.prems"(2) by (subst fetchLoop.simps) simp
    with ih show ?thesis
      using upto_rev_step [of retries] pos s1 by (simp add: sleep_def)
  qed
qed

text \<open>Once the clock is past the ceiling, every pass through the loop raises at the check
  of line 48 and is handled as a failed attempt: no GET is made, and the remaining
  retries are spent one by one, each but the last with its wait.\<close>

lemma fetchLoop_past_ceiling:
  assumes "now w - st > mt" and "retries > 0"
  shows "fetchLoop env url st mt retries w =
           (Inl NetworkRetries,
            w\<lparr>now := now w + sum_list (map (\<lambda>r. backoffDelay (3 - r)) (rev [1..retries - 1])),
              sleeps := sleeps w @ map (\<lambda>r. backoffDelay (3 - r)) (rev [1..retries - 1])\<rparr>)"
  using assms
proof (induction env url st mt retries w rule: fetchLoop.induct)
  case (1 env url st mt retries w)
  have t: "tryFetch env url st mt w = (Inl MaxTimeout, w)"
    using "1.prems"(1) by (simp add: tryFetch_def)
  show ?case
  proof (cases "retries - 1 = 0")
    case True
    then show ?thesis
      using t "1.prems"(2) by (subst fetchLoop.simps) simp
  next
    case False
    then have pos: "retries - 1 > 0" using "1.prems"(2) by simp
    let ?d = "backoffDelay (3 - (retries - 1))"
    have late: "now (sleep ?d w) - st > mt"
      using "1.prems"(1) backoffDelay_pos [of "3 - (retries - 1)"] by (simp add: sleep_def)
    have "fetchLoop env url st mt retries w = fetchLoop env url st mt (retries - 1) (sleep ?d w)"
      using t False "1.prems"(2) by (subst fetchLoop.simps) simp
    also have "\<dots> = (Inl NetworkRetries,
        (sleep ?d w)\<lparr>now := now (sleep ?d w) +
             sum_list (map (\<lambda>r. backoffDelay (3 - r)) (rev [1..retries - 1 - 1])),
           sleeps := sleeps (sleep ?d w) @
             map (\<lambda>r. backoffDelay (3 - r)) (rev [1..retries - 1 - 1])\<rparr>)"
      using "1.IH" [OF "1.prems"(2) t [symmetric] refl False late pos] .
    finally show ?thesis
      using upto_rev_step [of retries] pos by (simp add: sleep_def add.assoc)
  qed
qed

text \<open>The error raised at line 50 never leaves \<open>getYad2Response\<close>.\<close>

lemma fetchLoop_outcomes:
  "fst (fetchLoop env url st mt retries w) \<noteq> Inl MaxTimeout"
proof (induction env url st mt retries w rule: fetchLoop.induct)
  case (1 env url st mt retries w)
  show ?case
  proof (cases "retries > 0")
    case False
    then show ?thesis by (subst fetchLoop.simps) simp
  next
    case pos: True
    show ?thesis
    proof (cases "tryFetch env url st mt w")
      case (Pair r w1)
      show ?thesis
      proof (cases r)
        case (Inr body)
        with Pair pos show ?thesis by (subst fetchLoop.simps) simp
      next
        case (Inl e)
        with Pair have t: "tryFetch env url st mt w = (Inl e, w1)" by simp
        show ?thesis
        proof (cases "retries - 1 = 0")
          case True
          with t pos show ?thesis by (subst fetchLoop.simps) simp
        next
          case False
          with t pos "1.IH" [OF pos t [symmetric] refl False] show ?thesis
            by (subst fetchLoop.simps) simp
        qed
      qed
    qed
  qed
qed

lemma demo_fetch_3:
  "getYad2Response demoEnv demoUrl 3 10000 (worldWith None) =
     (Inl NetworkRetries,
      (worldWith None)\<lparr>now := 6300, gets := [demoUrl, demoUrl, demoUrl], sleeps := [2000, 4000]\<rparr>)"
  by (simp add: getYad2Response_def fetchLoop.simps tryFetch_def httpGet_def sleep_def
      backoffDelay_def demoEnv_def worldWith_def)

text \<open>
  Claim C2, evaluated where it fails. With the default arguments, the first GET is
  answered 503 after 11 seconds. After the first back-off the clock stands at 13 seconds,
  past the ceiling of 10 seconds, and the check of line 48 raises; the \<open>catch\<close> block of
  the same \<open>try\<close> takes the error for a failed attempt: it spends a retry, waits four more
  seconds, the check raises again, and the last retry is spent. The call ends at 17
  seconds with the error of exhausted retries, after one GET and two waits.
\<close>

theorem timeout_is_caught_as_failed_attempt:
  "getYad2Response slowEnv demoUrl 3 10000 (worldWith None) =
     (Inl NetworkRetries,
      (worldWith None)\<lparr>now := 17000, gets := [demoUrl], sleeps := [2000, 4000]\<rparr>) \<and>
   tryFetch slowEnv demoUrl 0 10000
     ((worldWith None)\<lparr>now := 13000, gets := [demoUrl], sleeps := [2000]\<rparr>) =
     (Inl MaxTimeout, (worldWith None)\<lparr>now := 13000, gets := [demoUrl], sleeps := [2000]\<rparr>)"
  by (simp add: getYad2Response_def fetchLoop.simps tryFetch_def httpGet_def sleep_def
      backoffDelay_def slowEnv_def demoEnv_def worldWith_def res_ok_def)


section \<open>Properties of scrape\<close>

lemma sublist_failureText:
  "sublist (if message e = [] then ''Unknown error occurred'' else message e) (failureText e)"
proof -
  define banner where "banner =
     ''Scan workflow failed... ''
     @ [CHR 0xC3, CHR 0xB0, CHR 0xC5, CHR 0xB8, CHR 0xCB, CHR 0x9C, CHR 0xC2, CHR 0xA5]
     @ ''\<newline>Error: ''"
  have "failureText e =
      banner @ (if message e = [] then ''Unknown error occurred'' else message e)"
    by (simp add: failureText_def banner_def Let_def orEmpty_def jsOr_def truthy_def)
  then show ?thesis by (simp only: sublist_append_leftI)
qed

lemma demo_world_sent: "sent (worldWith content) = []"
  by (simp add: worldWith_def)

text \<open>
  Claim C6, as amended. When the credentials are present and the pipeline of a topic
  fails at any stage with an error \<open>e\<close>, the handler of \<open>scrape\<close> issues exactly one more
  request to Telegram: a text message to the configured chat whose text is the fixed
  failure banner followed by the message of \<open>e\<close> (or by \<open>Unknown error occurred\<close> when that
  message is empty). The text holds the error message.
\<close>

theorem failure_is_notified_once:
  assumes "credentials env = Some (apiToken, chatId)"
      and "pipeline env topic url chatId apiToken w = (Inl e, w1)"
  shows "sent (snd (scrape env topic url w)) =
           sent w1 @ [SendMessage apiToken chatId (failureText e)] \<and>
         sublist (if message e = [] then ''Unknown error occurred'' else message e)
           (failureText e)"
  using assms sublist_failureText [of e]
  by (simp add: scrape_def sendTelegramMessage_sent)

lemma demo_credentials: "credentials demoEnv = Some (''token'', ''chat'')"
  by (simp add: credentials_def demoEnv_def jsOr_def truthy_def orEmpty_def Let_def)

lemma demo_pipeline_down:
  "pipeline demoEnv demoTopic demoUrl ''chat'' ''token'' (worldWith None) =
     (Inl NetworkRetries,
      (worldWith None)\<lparr>now := 6300, gets := [demoUrl, demoUrl, demoUrl], sleeps := [2000, 4000]\<rparr>)"
  by (simp add: pipeline_def scrapeItemsAndExtractAdDetails_def demo_fetch_3)

theorem failure_is_notified_once_witness:
  "credentials demoEnv = Some (''token'', ''chat'') \<and>
   fst (pipeline demoEnv demoTopic demoUrl ''chat'' ''token'' (worldWith None)) =
     Inl NetworkRetries \<and>
   sent (snd (scrape demoEnv demoTopic demoUrl (worldWith None))) =
     [SendMessage ''token'' ''chat'' (failureText NetworkRetries)] \<and>
   sublist ''Network error occurred after multiple retries'' (failureText NetworkRetries)"
  using failure_is_notified_once [OF demo_credentials demo_pipeline_down]
  by (simp add: demo_credentials demo_pipeline_down demo_world_sent)

text \<open>The claim as stated fails: the site being down, the text of the only notification
  of the topic \<open>tel-aviv-2br\<close> does not hold the topic name.\<close>

theorem failure_text_lacks_topic:
  "sent (snd (scrape demoEnv ''tel-aviv-2br'' demoUrl (worldWith None))) =
     [SendMessage ''token'' ''chat'' (failureText NetworkRetries)] \<and>
   \<not> sublist ''tel-aviv-2br'' (failureText NetworkRetries)"
proof -
  have "\<not> sublist ''tel-aviv-2br'' (failureText NetworkRetries)"
    by (simp add: failureText_def Let_def orEmpty_def jsOr_def truthy_def sublist_code(3))
  moreover have "sent (snd (scrape demoEnv ''tel-aviv-2br'' demoUrl (worldWith None))) =
     [SendMessage ''token'' ''chat'' (failureText NetworkRetries)]"
    using demo_pipeline_down
    by (simp add: scrape_def demo_credentials demoTopic_def sendTelegramMessage_sent
        demo_world_sent)
  ultimately show ?thesis by simp
qed

end
